theory Spec2Isabelle
  imports Complex_Main "HOL-Library.Word" "HOL-Library.Sublist" "HOL-Library.Multiset"
begin

section \<open>Values held by the data frame\<close>

text \<open>
  The result of Python's \<^verbatim>\<open>float(x)\<close>: a binary64 number, written as the rational it
  denotes, one of the two infinities, or the missing-value marker \<^verbatim>\<open>nan\<close>.  The sign of a
  zero is not kept (\<^verbatim>\<open>-0.0 == 0.0\<close> in Python).
\<close>

datatype pyfloat = Finite rat | PosInf | NegInf | NaN

text \<open>
  A cell of the frame that \<^verbatim>\<open>pd.read_csv\<close> builds: text (the file is decoded as
  iso-8859-1, one character per byte, which is what \<^typ>\<open>char\<close> holds), a float (a missing
  field is the float \<^verbatim>\<open>nan\<close>), a numpy int64 or uint64, or a numpy bool.
\<close>

datatype cell = CStr string | CFloat pyfloat | CInt "64 word" | CUInt "64 word" | CBool bool

datatype py_error =
    ValueError_float
  | ValueError_unit "cell list" string
  | ValueError_length nat nat
  | AttributeError
  | IndexError
  | KeyError string
  | IndexingError

definition isna :: "cell \<Rightarrow> bool" where
  "isna c = (c = CFloat NaN)"


section \<open>Rounding to binary64\<close>

text \<open>Python's \<^verbatim>\<open>int.bit_length\<close> on a positive integer.\<close>

function bit_length :: "int \<Rightarrow> int" where
  "bit_length n = (if n \<le> 0 then 0 else 1 + bit_length (n div 2))"
  by pat_completeness auto
termination
  by (relation "measure nat") auto

definition pow2 :: "int \<Rightarrow> rat" where
  "pow2 e = (if 0 \<le> e then 2 ^ nat e else 1 / 2 ^ nat (- e))"

definition pow10 :: "int \<Rightarrow> rat" where
  "pow10 e = (if 0 \<le> e then 10 ^ nat e else 1 / 10 ^ nat (- e))"

text \<open>The exponent of the binade of a positive rational: the \<open>e\<close> with \<open>2^e \<le> a < 2^(e+1)\<close>.\<close>

definition ilog2 :: "rat \<Rightarrow> int" where
  "ilog2 a =
     (let n = fst (quotient_of a); d = snd (quotient_of a);
          e0 = bit_length n - bit_length d
      in if pow2 e0 \<le> a then e0 else e0 - 1)"

definition round_half_even :: "rat \<Rightarrow> int" where
  "round_half_even x =
     (let f = \<lfloor>x\<rfloor>; d = x - of_int f
      in if d < 1 / 2 then f
         else if 1 / 2 < d then f + 1
         else if even f then f else f + 1)"

text \<open>
  Round to nearest, ties to even, with 53 significant bits, gradual underflow below
  \<open>2^-1022\<close> (the spacing never gets finer than \<open>2^-1074\<close>) and overflow to an infinity
  from \<open>2^1024\<close> on.
\<close>

definition round_binary64 :: "rat \<Rightarrow> pyfloat" where
  "round_binary64 q =
     (if q = 0 then Finite 0
      else
        let a = \<bar>q\<bar>;
            p = max (ilog2 a - 52) (- 1074);
            v = of_int (round_half_even (a / pow2 p)) * pow2 p
        in if pow2 1024 \<le> v then (if 0 < q then PosInf else NegInf)
           else Finite (if 0 < q then v else - v))"

section \<open>\<^verbatim>\<open>float\<close> of a string\<close>

definition is_digit :: "char \<Rightarrow> bool" where
  "is_digit c = (let n = (of_char c :: nat) in 48 \<le> n \<and> n \<le> 57)"

text \<open>
  The characters \<^verbatim>\<open>float\<close> strips from both ends: the ASCII white space of
  \<^verbatim>\<open>Py_ISSPACE\<close> and, of the characters above 127, next-line and no-break space.
\<close>

definition is_space :: "char \<Rightarrow> bool" where
  "is_space c = (let n = (of_char c :: nat) in (9 \<le> n \<and> n \<le> 13) \<or> n = 32 \<or> n = 133 \<or> n = 160)"

definition strip :: "string \<Rightarrow> string" where
  "strip s = rev (dropWhile is_space (rev (dropWhile is_space s)))"

text \<open>The rest of a digit part after its first digit: \<^verbatim>\<open>(["_"] digit)*\<close>.\<close>

fun digitpart_tail :: "string \<Rightarrow> string \<times> string" where
  "digitpart_tail [] = ([], [])"
| "digitpart_tail (c # cs) =
     (if is_digit c then (case digitpart_tail cs of (ds, r) \<Rightarrow> (c # ds, r))
      else if c = CHR ''_'' then
        (case cs of
           [] \<Rightarrow> ([], c # cs)
         | d # cs' \<Rightarrow>
             if is_digit d then (case digitpart_tail cs' of (ds, r) \<Rightarrow> (d # ds, r))
             else ([], c # cs))
      else ([], c # cs))"

definition digitpart :: "string \<Rightarrow> (string \<times> string) option" where
  "digitpart s =
     (case s of
        [] \<Rightarrow> None
      | c # cs \<Rightarrow>
          if is_digit c then (case digitpart_tail cs of (ds, r) \<Rightarrow> Some (c # ds, r))
          else None)"

definition int_of_digits :: "string \<Rightarrow> int" where
  "int_of_digits ds = foldl (\<lambda>a c. 10 * a + (of_char c - 48)) 0 ds"

definition sign :: "string \<Rightarrow> bool \<times> string" where
  "sign s =
     (case s of
        [] \<Rightarrow> (False, [])
      | c # r \<Rightarrow>
          if c = CHR ''+'' then (False, r)
          else if c = CHR ''-'' then (True, r)
          else (False, s))"

text \<open>\<^verbatim>\<open>number ::= [digitpart] "." digitpart | digitpart ["."]\<close>: the digits before
  the point, the digits after it, and what follows.\<close>

definition number :: "string \<Rightarrow> (string \<times> string \<times> string) option" where
  "number s =
     (case digitpart s of
        Some (ip, r) \<Rightarrow>
          (case r of
             [] \<Rightarrow> Some (ip, [], [])
           | c # r' \<Rightarrow>
               if c = CHR ''.'' then
                 (case digitpart r' of
                    Some (fp, r'') \<Rightarrow> Some (ip, fp, r'')
                  | None \<Rightarrow> Some (ip, [], r'))
               else Some (ip, [], r))
      | None \<Rightarrow>
          (case s of
             [] \<Rightarrow> None
           | c # r' \<Rightarrow>
               if c = CHR ''.'' then
                 (case digitpart r' of
                    Some (fp, r'') \<Rightarrow> Some ([], fp, r'')
                  | None \<Rightarrow> None)
               else None))"

text \<open>\<^verbatim>\<open>exponent ::= ("e" | "E") [sign] digitpart\<close>, optional, and then the end of the
  string.\<close>

definition exponent :: "string \<Rightarrow> int option" where
  "exponent r =
     (case r of
        [] \<Rightarrow> Some 0
      | c # r' \<Rightarrow>
          if c = CHR ''e'' \<or> c = CHR ''E'' then
            (case sign r' of
               (neg, r'') \<Rightarrow>
                 (case digitpart r'' of
                    Some (ds, rest) \<Rightarrow>
                      if rest = [] then
                        Some (if neg then - int_of_digits ds else int_of_digits ds)
                      else None
                  | None \<Rightarrow> None))
          else None)"

definition ascii_lower :: "char \<Rightarrow> char" where
  "ascii_lower c =
     (let n = (of_char c :: nat) in if 65 \<le> n \<and> n \<le> 90 then char_of (n + 32) else c)"

text \<open>\<^verbatim>\<open>float(s)\<close> for a string: \<open>None\<close> is Python's \<^verbatim>\<open>ValueError\<close>.\<close>

definition float_of_string :: "string \<Rightarrow> pyfloat option" where
  "float_of_string s =
     (case sign (strip s) of
        (neg, s2) \<Rightarrow>
         (let w = map ascii_lower s2 in
          if w = ''inf'' \<or> w = ''infinity'' then Some (if neg then NegInf else PosInf)
          else if w = ''nan'' then Some NaN
          else
            (case number s2 of
               None \<Rightarrow> None
             | Some (ip, fp, r) \<Rightarrow>
                 (case exponent r of
                    None \<Rightarrow> None
                  | Some e \<Rightarrow>
                      Some (round_binary64
                        ((if neg then - 1 else 1) * of_int (int_of_digits (ip @ fp))
                          * pow10 (e - int (length fp))))))))"

text \<open>\<^verbatim>\<open>float(x)\<close> for a cell.  Only text can fail to convert.\<close>

definition float_py :: "cell \<Rightarrow> py_error + pyfloat" where
  "float_py x =
     (case x of
        CStr s \<Rightarrow> (case float_of_string s of None \<Rightarrow> Inl ValueError_float | Some v \<Rightarrow> Inr v)
      | CFloat v \<Rightarrow> Inr v
      | CInt w \<Rightarrow> Inr (round_binary64 (of_int (sint w)))
      | CUInt w \<Rightarrow> Inr (round_binary64 (of_int (uint w)))
      | CBool b \<Rightarrow> Inr (Finite (if b then 1 else 0)))"

section \<open>The module \<^verbatim>\<open>weo.py\<close>\<close>

definition LATEST_YEAR :: int where
  "LATEST_YEAR = 2024"

text \<open>
  \<^verbatim>\<open>convert\<close>: commas are taken out of text that has any, then \<^verbatim>\<open>float\<close> is tried and a
  \<^verbatim>\<open>ValueError\<close> (no other exception) is turned into \<^verbatim>\<open>nan\<close>.
\<close>

definition convert :: "cell \<Rightarrow> py_error + pyfloat" where
  "convert x =
     (let x' = (case x of
                  CStr s \<Rightarrow> if CHR '','' \<in> set s then CStr (filter (\<lambda>c. c \<noteq> CHR '','') s) else x
                | _ \<Rightarrow> x)
      in case float_py x' of
           Inl ValueError_float \<Rightarrow> Inr NaN
         | Inl e \<Rightarrow> Inl e
         | Inr v \<Rightarrow> Inr v)"

section \<open>Strings\<close>

text \<open>
  A character of a Python string, as far as the texts of this module go: a character of
  iso-8859-1 (the file is decoded so, and every text of the frame is made of these), or one
  of the three characters that \<^verbatim>\<open>upper()\<close> and \<^verbatim>\<open>lower()\<close> reach from them: capital Y with
  diaeresis (U+0178), Greek capital mu (U+039C) and Greek small mu (U+03BC).
\<close>

datatype pychar = Latin1 char | Cap_Y_diaeresis | Cap_Mu | Small_mu

type_synonym pystr = "pychar list"

definition of_string :: "string \<Rightarrow> pystr" where
  "of_string s = map Latin1 s"

text \<open>
  \<^verbatim>\<open>str.lower()\<close>, character by character.  In iso-8859-1 the letters A to Z and the
  accented capitals 0xC0 to 0xDE (but not the multiplication sign 0xD7) move up by 32 and
  every other character stays; capital Y with diaeresis becomes 0xFF and the Greek capital
  mu the Greek small mu.
\<close>

definition lower_char :: "char \<Rightarrow> char" where
  "lower_char c =
     (let n = (of_char c :: nat)
      in if (65 \<le> n \<and> n \<le> 90) \<or> (192 \<le> n \<and> n \<le> 222 \<and> n \<noteq> 215) then char_of (n + 32) else c)"

fun lower_pychar :: "pychar \<Rightarrow> pychar" where
  "lower_pychar (Latin1 c) = Latin1 (lower_char c)"
| "lower_pychar Cap_Y_diaeresis = Latin1 (CHR 0xFF)"
| "lower_pychar Cap_Mu = Small_mu"
| "lower_pychar Small_mu = Small_mu"

definition lower :: "pystr \<Rightarrow> pystr" where
  "lower s = map lower_pychar s"



text \<open>\<^verbatim>\<open>c in x\<close> for two strings: \<open>c\<close> occurs in \<open>x\<close> as a run of consecutive characters.\<close>

fun contains :: "'a list \<Rightarrow> 'a list \<Rightarrow> bool" where
  "contains c [] = (c = [])"
| "contains c (y # ys) = (prefix c (y # ys) \<or> contains c ys)"

text \<open>
  \<^verbatim>\<open>str.isdigit()\<close>: not empty, and every character a digit; in iso-8859-1 these are 0 to 9
  and the superscripts two, three and one.
\<close>

definition isdigit :: "string \<Rightarrow> bool" where
  "isdigit s =
     (s \<noteq> [] \<and>
      list_all (\<lambda>c. let n = (of_char c :: nat)
                    in (48 \<le> n \<and> n \<le> 57) \<or> n = 178 \<or> n = 179 \<or> n = 185) s)"

text \<open>\<^verbatim>\<open>str(n)\<close> for an integer.\<close>

function str_pos :: "int \<Rightarrow> string" where
  "str_pos n = (if n < 10 then [char_of (48 + n)] else str_pos (n div 10) @ [char_of (48 + n mod 10)])"
  by pat_completeness auto
termination
  by (relation "measure nat") auto

definition str_int :: "int \<Rightarrow> string" where
  "str_int n = (if n < 0 then CHR ''-'' # str_pos (- n) else str_pos n)"

section \<open>The data frame\<close>

text \<open>
  A row of the frame read from the file: the five columns the module names, and the cells of
  the remaining columns in file order.
\<close>

record row =
  WEO_Country_Code :: cell
  ISO :: cell
  Country :: cell
  Subject_Descriptor :: cell
  Units :: cell
  other :: "cell list"

text \<open>
  The object's \<^verbatim>\<open>_df\<close>: the headers of the remaining columns (the year columns are among
  them; \<^verbatim>\<open>read_csv\<close> makes headers distinct) and the rows.
\<close>

record WEO =
  other_columns :: "string list"
  raw_df :: "row list"

text \<open>
  \<^verbatim>\<open>unique()\<close> and \<^verbatim>\<open>drop_duplicates()\<close>: the first occurrence of each value is kept, in
  order of appearance.  Two cells are the same value when Python's \<^verbatim>\<open>==\<close> holds of them,
  so the integer 1, the float 1.0 and \<^verbatim>\<open>True\<close> are one value, and a missing value is the
  same as a missing value.  \<open>py_key\<close> maps the cells that are the same value to one cell.
\<close>

definition py_key :: "cell \<Rightarrow> cell" where
  "py_key c =
     (case c of
        CStr s \<Rightarrow> CStr s
      | CFloat v \<Rightarrow> CFloat v
      | CInt w \<Rightarrow> CFloat (Finite (of_int (sint w)))
      | CUInt w \<Rightarrow> CFloat (Finite (of_int (uint w)))
      | CBool b \<Rightarrow> CFloat (Finite (if b then 1 else 0)))"

function unique_by :: "('a \<Rightarrow> 'k) \<Rightarrow> 'a list \<Rightarrow> 'a list" where
  "unique_by k [] = []"
| "unique_by k (x # xs) = x # unique_by k (filter (\<lambda>y. k y \<noteq> k x) xs)"
  by pat_completeness auto
termination
  by (relation "measure (\<lambda>(k, xs). length xs)") (auto simp: less_Suc_eq_le)

definition unique :: "cell list \<Rightarrow> cell list" where
  "unique xs = unique_by py_key xs"

definition drop_duplicates :: "(cell \<times> cell \<times> cell) list \<Rightarrow> (cell \<times> cell \<times> cell) list" where
  "drop_duplicates rows = unique_by (\<lambda>(a, b, c). (py_key a, py_key b, py_key c)) rows"

fun traverse :: "('a \<Rightarrow> 'e + 'b) \<Rightarrow> 'a list \<Rightarrow> 'e + 'b list" where
  "traverse f [] = Inr []"
| "traverse f (x # xs) =
     (case f x of
        Inl e \<Rightarrow> Inl e
      | Inr y \<Rightarrow> (case traverse f xs of Inl e \<Rightarrow> Inl e | Inr ys \<Rightarrow> Inr (y # ys)))"

text \<open>
  \<^verbatim>\<open>years\<close>: the headers that are digit strings.  The headers of the five named columns
  are not, so only the remaining columns are looked at.
\<close>

definition years :: "WEO \<Rightarrow> string list" where
  "years w = filter isdigit (other_columns w)"

definition df :: "WEO \<Rightarrow> row list" where
  "df w = filter (\<lambda>r. \<not> isna (Country r)) (raw_df w)"

definition countries_df :: "WEO \<Rightarrow> (cell \<times> cell \<times> cell) list" where
  "countries_df w = drop_duplicates (map (\<lambda>r. (WEO_Country_Code r, ISO r, Country r)) (raw_df w))"

definition variables :: "WEO \<Rightarrow> cell list" where
  "variables w = unique (map Subject_Descriptor (df w))"

text \<open>The argument of \<^verbatim>\<open>by_subject\<close>: one name or a list of names.\<close>

datatype subjects = One string | Many "string list"

definition by_subject :: "WEO \<Rightarrow> subjects \<Rightarrow> row list" where
  "by_subject w subjects =
     (let names = (case subjects of One s \<Rightarrow> [s] | Many l \<Rightarrow> l)
      in filter (\<lambda>r. Subject_Descriptor r \<in> set (map CStr names)) (df w))"

text \<open>Python's truth value of the argument: an empty string and an empty list are false.\<close>

definition truthy :: "subjects \<Rightarrow> bool" where
  "truthy s = (case s of One n \<Rightarrow> n \<noteq> [] | Many l \<Rightarrow> l \<noteq> [])"

definition units :: "WEO \<Rightarrow> subjects option \<Rightarrow> cell list" where
  "units w subject =
     unique (map Units
       (case subject of
          None \<Rightarrow> df w
        | Some s \<Rightarrow> if truthy s then by_subject w s else df w))"

text \<open>
  The cells of a row under the year columns.  A frame is rectangular: where a line of the
  file is short, \<^verbatim>\<open>read_csv\<close> has filled in \<^verbatim>\<open>nan\<close>.
\<close>

definition year_cells :: "WEO \<Rightarrow> row \<Rightarrow> cell list" where
  "year_cells w r =
     map (\<lambda>i. if i < length (other r) then other r ! i else CFloat NaN)
       (filter (\<lambda>i. isdigit (other_columns w ! i)) [0..<length (other_columns w)])"

text \<open>
  \<^verbatim>\<open>pd.date_range(start=str(s), end=str(e), freq='A')\<close>: the year ends from 1 January of
  year \<open>s\<close> to 1 January of year \<open>e\<close>, that is 31 December of \<open>s\<close> up to 31 December of
  \<open>e - 1\<close>.  A date is (year, month, day).
\<close>

definition date_range_A :: "int \<Rightarrow> int \<Rightarrow> (int \<times> int \<times> int) list" where
  "date_range_A s e = map (\<lambda>y. (y, 12, 31)) [s..e - 1]"

text \<open>
  The frame \<^verbatim>\<open>get\<close> returns, after the transpose: the row axis, and the columns in order,
  each with its label (a cell of the ISO column) and its values down the row axis.
\<close>

record series =
  index :: "(int \<times> int \<times> int) list"
  columns :: "(cell \<times> pyfloat list) list"

text \<open>
  \<^verbatim>\<open>get\<close>.  Assigning the new index raises \<^verbatim>\<open>ValueError\<close> (length mismatch) unless the frame
  has as many rows, one per year column, as the date range has entries.
\<close>

definition get :: "WEO \<Rightarrow> string \<Rightarrow> string \<Rightarrow> py_error + series" where
  "get w subject unit =
     (let df1 = by_subject w (One subject);
          us = unique (map Units df1)
      in if CStr unit \<notin> set us then Inl (ValueError_unit us unit)
         else
           let df2 = filter (\<lambda>r. Units r = CStr unit) df1;
               idx = date_range_A 1980 (LATEST_YEAR + 1)
           in if length (years w) \<noteq> length idx
              then Inl (ValueError_length (length (years w)) (length idx))
              else
                (case traverse
                        (\<lambda>r. case traverse convert (year_cells w r) of
                               Inl e \<Rightarrow> Inl e
                             | Inr vs \<Rightarrow> Inr (ISO r, vs)) df2 of
                   Inl e \<Rightarrow> Inl e
                 | Inr cs \<Rightarrow> Inr \<lparr>index = idx, columns = cs\<rparr>))"

text \<open>
  \<^verbatim>\<open>find_countries\<close>.  The lambda calls \<^verbatim>\<open>x.lower()\<close> on every cell of the Country column
  of \<^verbatim>\<open>countries_df\<close>; a cell that is not text has no such method.  The rows where the
  lambda gave true are kept.
\<close>

definition find_countries :: "WEO \<Rightarrow> pystr \<Rightarrow> py_error + (cell \<times> cell \<times> cell) list" where
  "find_countries w name =
     (let c = lower name
      in case traverse
                (\<lambda>(code, iso_cell, country).
                   case country of
                     CStr x \<Rightarrow> Inr (contains c (lower (of_string x)))
                   | _ \<Rightarrow> Inl AttributeError) (countries_df w) of
           Inl e \<Rightarrow> Inl e
         | Inr ix \<Rightarrow> Inr (map fst (filter snd (zip (countries_df w) ix))))"

text \<open>
  \<^verbatim>\<open>iso_code\<close>: \<^verbatim>\<open>.ISO.iloc[0]\<close> of the matches.  On a frame without rows the mask of
  \<^verbatim>\<open>find_countries\<close> is empty, pandas takes it for an empty list of column labels, and the
  frame that comes back has no ISO column: \<^verbatim>\<open>.ISO\<close> raises \<^verbatim>\<open>AttributeError\<close>.
\<close>

definition iso_code :: "WEO \<Rightarrow> pystr \<Rightarrow> py_error + cell" where
  "iso_code w country =
     (case find_countries w country of
        Inl e \<Rightarrow> Inl e
      | Inr [] \<Rightarrow> if raw_df w = [] then Inl AttributeError else Inl IndexError
      | Inr ((code, iso_cell, name) # rest) \<Rightarrow> Inr iso_cell)"

section \<open>The preset \<^verbatim>\<open>gdp_usd\<close>\<close>














definition gdp_subject :: string where
  "gdp_subject = ''Gross domestic product, current prices''"

definition gdp_unit :: string where
  "gdp_unit = ''U.S. dollars''"


section \<open>Example tables\<close>

definition mk_row :: "string \<Rightarrow> string \<Rightarrow> string \<Rightarrow> string \<Rightarrow> string \<Rightarrow> cell list \<Rightarrow> row" where
  "mk_row code iso3 name subject unit cs =
     \<lparr>WEO_Country_Code = CStr code, ISO = CStr iso3, Country = CStr name,
      Subject_Descriptor = CStr subject, Units = CStr unit, other = cs\<rparr>"

text \<open>The two-row table of the specification's example: one year column, 2018.\<close>

definition two_row_table :: WEO where
  "two_row_table =
     \<lparr>other_columns = [''2018''],
      raw_df =
        [mk_row ''111'' ''USA'' ''United States'' gdp_subject gdp_unit [CInt 20000],
         mk_row ''924'' ''CHN'' ''China'' gdp_subject gdp_unit [CInt 13000]]\<rparr>"

text \<open>
  A table with the 45 year columns 1980 to 2024 after a column that is no year, three
  countries, and the footer line of the IMF file, whose Country field is missing.
\<close>

definition year_window :: "string list" where
  "year_window = map str_int [1980..2024]"

definition constant_cells :: "string \<Rightarrow> cell list" where
  "constant_cells v = CStr ''Billions'' # replicate 45 (CStr v)"

definition footer_row :: row where
  "footer_row =
     \<lparr>WEO_Country_Code = CStr ''International Monetary Fund, World Economic Outlook Database'',
      ISO = CFloat NaN, Country = CFloat NaN, Subject_Descriptor = CFloat NaN,
      Units = CFloat NaN, other = []\<rparr>"

definition clean_table :: WEO where
  "clean_table =
     \<lparr>other_columns = ''Scale'' # year_window,
      raw_df =
        [mk_row ''111'' ''USA'' ''United States'' gdp_subject gdp_unit (constant_cells ''20,000.5''),
         mk_row ''111'' ''USA'' ''United States'' gdp_subject ''National currency''
           (constant_cells ''20,000.5''),
         mk_row ''112'' ''GBR'' ''United Kingdom'' gdp_subject gdp_unit (constant_cells ''n/a''),
         mk_row ''922'' ''RUS'' ''Russia'' gdp_subject gdp_unit (constant_cells ''1,600''),
         mk_row ''924'' ''CHN'' ''China'' gdp_subject gdp_unit (constant_cells ''20,000.5'')]\<rparr>"

definition footer_table :: WEO where
  "footer_table = clean_table\<lparr>raw_df := raw_df clean_table @ [footer_row]\<rparr>"



section \<open>Basic facts\<close>

lemma set_unique_by: "set (unique_by k xs) \<subseteq> set xs"
  by (induction k xs rule: unique_by.induct) auto

lemma keys_unique_by: "k ` set (unique_by k xs) = k ` set xs"
  by (induction k xs rule: unique_by.induct) auto

lemma unique_by_eq_Nil: "unique_by k xs = [] \<longleftrightarrow> xs = []"
  by (cases xs) auto

lemma distinct_keys_unique_by: "distinct (map k (unique_by k xs))"
proof (induction k xs rule: unique_by.induct)
  case (1 k)
  then show ?case by simp
next
  case (2 k x xs)
  have "k x \<notin> k ` set (unique_by k (filter (\<lambda>y. k y \<noteq> k x) xs))"
    using set_unique_by [of k "filter (\<lambda>y. k y \<noteq> k x) xs"] by auto
  with 2 show ?case
    by simp
qed

lemma set_unique: "set (unique xs) \<subseteq> set xs"
  by (simp add: unique_def set_unique_by)

lemma keys_unique: "py_key ` set (unique xs) = py_key ` set xs"
  by (simp add: unique_def keys_unique_by)

lemma unique_eq_Nil: "unique xs = [] \<longleftrightarrow> xs = []"
  by (simp add: unique_def unique_by_eq_Nil)

lemma py_key_CStr: "py_key c = CStr s \<longleftrightarrow> c = CStr s"
  by (cases c) (auto simp: py_key_def)

lemma CStr_in_unique: "CStr s \<in> set (unique xs) \<longleftrightarrow> CStr s \<in> set xs"
proof
  assume "CStr s \<in> set (unique xs)"
  then show "CStr s \<in> set xs"
    using set_unique by blast
next
  assume "CStr s \<in> set xs"
  then have "py_key (CStr s) \<in> py_key ` set (unique xs)"
    unfolding keys_unique by (rule imageI)
  then obtain c where "c \<in> set (unique xs)" and "py_key c = CStr s"
    by (auto simp: py_key_def)
  then show "CStr s \<in> set (unique xs)"
    by (simp add: py_key_CStr)
qed

lemma float_py_error: "float_py x = Inl e \<Longrightarrow> e = ValueError_float"
  by (auto simp: float_py_def split: cell.splits option.splits)

lemma convert_returns: "\<exists>v. convert x = Inr v"
proof (cases "float_py (case x of
                  CStr s \<Rightarrow> if CHR '','' \<in> set s then CStr (filter (\<lambda>c. c \<noteq> CHR '','') s) else x
                | _ \<Rightarrow> x)")
  case (Inl e)
  then have "e = ValueError_float"
    by (rule float_py_error)
  with Inl show ?thesis
    by (simp add: convert_def)
next
  case (Inr v)
  then show ?thesis
    by (simp add: convert_def)
qed

lemma filter_no_comma: "CHR '','' \<notin> set s \<Longrightarrow> filter (\<lambda>c. c \<noteq> CHR '','') s = s"
  by (induction s) auto

lemma convert_CStr:
  "convert (CStr s) =
     (case float_of_string (filter (\<lambda>c. c \<noteq> CHR '','') s) of
        None \<Rightarrow> Inr NaN
      | Some v \<Rightarrow> Inr v)"
  by (cases "CHR '','' \<in> set s")
     (simp_all add: convert_def float_py_def filter_no_comma split: option.splits)







lemma contains_sublist: "contains c x = sublist c x"
  by (induction x) (auto simp: sublist_Cons_right)





lemma iso_code_no_rows: "raw_df w = [] \<Longrightarrow> iso_code w q = Inl AttributeError"
  by (simp add: iso_code_def find_countries_def countries_df_def drop_duplicates_def)

lemma df_has_country: "r \<in> set (df w) \<Longrightarrow> r \<in> set (raw_df w) \<and> Country r \<noteq> CFloat NaN"
  by (simp add: df_def isna_def)

lemma variables_have_country:
  "c \<in> set (variables w) \<Longrightarrow> \<exists>r \<in> set (raw_df w). Country r \<noteq> CFloat NaN \<and> Subject_Descriptor r = c"
  using set_unique [of "map Subject_Descriptor (df w)"]
  by (auto simp: variables_def dest: df_has_country)

lemma by_subject_has_country:
  "r \<in> set (by_subject w subs) \<Longrightarrow> r \<in> set (raw_df w) \<and> Country r \<noteq> CFloat NaN"
  by (auto simp: by_subject_def dest: df_has_country)

lemma traverse_Inr_D:
  "traverse f xs = Inr ys \<Longrightarrow> list_all2 (\<lambda>x y. f x = Inr y) xs ys"
  by (induction xs arbitrary: ys) (auto split: sum.splits)

lemma traverse_Inr_I:
  "list_all2 (\<lambda>x y. f x = Inr y) xs ys \<Longrightarrow> traverse f xs = Inr ys"
  by (induction rule: list_all2_induct) auto

lemma traverse_Inr_iff:
  "traverse f xs = Inr ys \<longleftrightarrow> list_all2 (\<lambda>x y. f x = Inr y) xs ys"
  by (blast intro: traverse_Inr_D traverse_Inr_I)

lemma traverse_returns:
  assumes "\<And>x. x \<in> set xs \<Longrightarrow> \<exists>y. f x = Inr y"
  shows "\<exists>ys. traverse f xs = Inr ys"
  using assms
proof (induction xs)
  case Nil
  then show ?case by simp
next
  case (Cons x xs)
  then obtain y ys where "f x = Inr y" and "traverse f xs = Inr ys"
    by (meson list.set_intros)
  then show ?case by simp
qed

lemma filter_positions:
  "map (\<lambda>i. cols ! i) (filter (\<lambda>i. P (cols ! i)) [0..<length cols]) = filter P cols"
proof -
  have "filter P (map (\<lambda>i. cols ! i) [0..<length cols]) =
          map (\<lambda>i. cols ! i) (filter (\<lambda>i. P (cols ! i)) [0..<length cols])"
    by (simp add: filter_map comp_def)
  then show ?thesis
    by (simp add: map_nth)
qed

lemma length_year_cells: "length (year_cells w r) = length (years w)"
proof -
  have "length (year_cells w r) =
          length (map (\<lambda>i. other_columns w ! i)
            (filter (\<lambda>i. isdigit (other_columns w ! i)) [0..<length (other_columns w)]))"
    by (simp add: year_cells_def)
  then show ?thesis
    by (simp only: filter_positions years_def)
qed

lemma window_length: "length (date_range_A 1980 (LATEST_YEAR + 1)) = nat (LATEST_YEAR - 1980 + 1)"
  by (simp add: date_range_A_def)

lemma get_valid_unit:
  assumes valid: "CStr unit \<in> set (map Units (by_subject w (One indicator)))"
    and len: "length (years w) = nat (LATEST_YEAR - 1980 + 1)"
  shows "\<exists>cs. get w indicator unit =
                 Inr \<lparr>index = date_range_A 1980 (LATEST_YEAR + 1), columns = cs\<rparr> \<and>
               list_all2
                 (\<lambda>r (c, vs). c = ISO r \<and> list_all2 (\<lambda>x v. convert x = Inr v) (year_cells w r) vs)
                 (filter (\<lambda>r. Units r = CStr unit) (by_subject w (One indicator))) cs"
proof -
  let ?g = "\<lambda>r. case traverse convert (year_cells w r) of
                   Inl e \<Rightarrow> Inl e
                 | Inr vs \<Rightarrow> Inr (ISO r, vs)"
  let ?rows = "filter (\<lambda>r. Units r = CStr unit) (by_subject w (One indicator))"
  have g: "\<exists>y. ?g r = Inr y" for r
  proof -
    obtain vs where "traverse convert (year_cells w r) = Inr vs"
      using traverse_returns [of "year_cells w r" convert] convert_returns by blast
    then show ?thesis by simp
  qed
  then obtain cs where cs: "traverse ?g ?rows = Inr cs"
    using traverse_returns [of ?rows ?g] by blast
  then have "list_all2 (\<lambda>r y. ?g r = Inr y) ?rows cs"
    by (simp only: traverse_Inr_iff)
  then have "list_all2
                 (\<lambda>r (c, vs). c = ISO r \<and> list_all2 (\<lambda>x v. convert x = Inr v) (year_cells w r) vs)
                 ?rows cs"
    by (rule list_all2_mono) (auto simp: traverse_Inr_iff split: sum.splits)
  moreover have "get w indicator unit =
                   Inr \<lparr>index = date_range_A 1980 (LATEST_YEAR + 1), columns = cs\<rparr>"
    using valid len cs by (simp add: get_def Let_def CStr_in_unique window_length)
  ultimately show ?thesis by blast
qed

lemma get_wrong_length:
  assumes valid: "CStr unit \<in> set (map Units (by_subject w (One indicator)))"
    and len: "length (years w) \<noteq> nat (LATEST_YEAR - 1980 + 1)"
  shows "get w indicator unit =
           Inl (ValueError_length (length (years w)) (nat (LATEST_YEAR - 1980 + 1)))"
  using valid len by (simp add: get_def Let_def CStr_in_unique window_length)


lemma list_all2_right_ex:
  "list_all2 P xs ys \<Longrightarrow> y \<in> set ys \<Longrightarrow> \<exists>x \<in> set xs. P x y"
  by (induction rule: list_all2_induct) auto

lemma year_ends: "date_range_A 1980 (LATEST_YEAR + 1) = map (\<lambda>y. (y, 12, 31)) [1980..LATEST_YEAR]"
  by (simp add: date_range_A_def)

lemma clean_years: "length (years clean_table) = nat (LATEST_YEAR - 1980 + 1)"
  by code_simp

subsection \<open>Sorting\<close>


















subsection \<open>The value \<^verbatim>\<open>gdp_usd\<close> sorts\<close>







section \<open>The claims\<close>

text \<open>
  C4.  \<^verbatim>\<open>convert\<close> returns on every cell and never raises.  The text \<^verbatim>\<open>1,234.5\<close> gives
  the number 1234.5, the text \<^verbatim>\<open>n/a\<close> gives \<^verbatim>\<open>nan\<close>, and so does every text that, with
  its commas taken out, \<^verbatim>\<open>float\<close> does not accept.
\<close>

theorem convert_total:
  "(\<exists>v. convert x = Inr v) \<and>
   convert (CStr ''1,234.5'') = Inr (Finite (2469 / 2)) \<and>
   convert (CStr ''n/a'') = Inr NaN \<and>
   (float_of_string (filter (\<lambda>c. c \<noteq> CHR '','') s) = None \<longrightarrow> convert (CStr s) = Inr NaN)"
proof -
  have a: "convert (CStr ''1,234.5'') = Inr (Finite (2469 / 2))"
    by code_simp
  have b: "convert (CStr ''n/a'') = Inr NaN"
    by code_simp
  show ?thesis
    using convert_returns [of x] a b by (simp add: convert_CStr)
qed

theorem convert_total_witness:
  "(\<exists>v. convert (CInt 7) = Inr v) \<and>
   convert (CStr ''1,234.5'') = Inr (Finite (2469 / 2)) \<and>
   convert (CStr ''n/a'') = Inr NaN \<and>
   float_of_string (filter (\<lambda>c. c \<noteq> CHR '','') ''1,2x'') = None \<and>
   convert (CStr ''1,2x'') = Inr NaN"
proof -
  have h: "float_of_string (filter (\<lambda>c. c \<noteq> CHR '','') ''1,2x'') = None"
    by code_simp
  show ?thesis
    using convert_total [of "CInt 7" "''1,2x''"] h by simp
qed

text \<open>
  C9.  Every comma of a textual cell is taken out before \<^verbatim>\<open>float\<close> is tried, wherever it
  stands: the result is that of the text without its commas, and \<^verbatim>\<open>1,2,3\<close> gives 123.0.
\<close>

theorem convert_strips_every_comma:
  "convert (CStr s) = convert (CStr (filter (\<lambda>c. c \<noteq> CHR '','') s)) \<and>
   convert (CStr s) =
     (case float_of_string (filter (\<lambda>c. c \<noteq> CHR '','') s) of
        None \<Rightarrow> Inr NaN
      | Some v \<Rightarrow> Inr v) \<and>
   convert (CStr ''1,2,3'') = Inr (Finite 123)"
proof -
  have "convert (CStr ''1,2,3'') = Inr (Finite 123)"
    by code_simp
  then show ?thesis
    by (simp add: convert_CStr)
qed

theorem convert_strips_every_comma_witness:
  "convert (CStr '',1,,2,3,'') = convert (CStr ''123'') \<and>
   convert (CStr '',1,,2,3,'') = Inr (Finite 123)"
proof -
  have "filter (\<lambda>c. c \<noteq> CHR '','') '',1,,2,3,'' = ''123''"
    by simp
  moreover have "convert (CStr ''123'') = Inr (Finite 123)"
    by code_simp
  ultimately show ?thesis
    using convert_strips_every_comma [of "'',1,,2,3,''"] by simp
qed

text \<open>
  C10.  \<^verbatim>\<open>units\<close> with the empty string as indicator is \<^verbatim>\<open>units\<close> with no indicator: the
  units of all rows that have a country, not the empty list and not an error.
\<close>

theorem units_empty_string:
  "units w (Some (One [])) = units w None \<and> units w None = unique (map Units (df w))"
  by (simp add: units_def truthy_def)

theorem units_empty_string_witness:
  "units footer_table (Some (One [])) = units footer_table None \<and>
   units footer_table None = [CStr gdp_unit, CStr ''National currency'']"
proof -
  have "units footer_table None = [CStr gdp_unit, CStr ''National currency'']"
    by code_simp
  then show ?thesis
    using units_empty_string [of footer_table] by simp
qed

text \<open>
  C1.  When the unit is not the unit of any row of the indicator in the filtered table,
  \<^verbatim>\<open>get\<close> raises the \<^verbatim>\<open>ValueError\<close> that carries the units of those rows, each once, and
  the unit asked for; it returns nothing and raises nothing else.  This holds for every
  indicator string, the empty one too.  For an indicator that is not the empty string the
  list is \<^verbatim>\<open>units(indicator)\<close>.
\<close>

theorem get_invalid_unit:
  assumes "CStr unit \<notin> Units ` set (by_subject w (One indicator))"
  shows "get w indicator unit =
           Inl (ValueError_unit (unique (map Units (by_subject w (One indicator)))) unit) \<and>
         set (unique (map Units (by_subject w (One indicator)))) \<subseteq>
           Units ` set (by_subject w (One indicator)) \<and>
         py_key ` set (unique (map Units (by_subject w (One indicator)))) =
           py_key ` Units ` set (by_subject w (One indicator)) \<and>
         distinct (map py_key (unique (map Units (by_subject w (One indicator))))) \<and>
         (indicator \<noteq> [] \<longrightarrow>
            unique (map Units (by_subject w (One indicator))) = units w (Some (One indicator)))"
proof -
  let ?us = "unique (map Units (by_subject w (One indicator)))"
  from assms have "CStr unit \<notin> set ?us"
    by (simp add: CStr_in_unique)
  then have "get w indicator unit = Inl (ValueError_unit ?us unit)"
    by (simp add: get_def Let_def)
  moreover have "set ?us \<subseteq> Units ` set (by_subject w (One indicator))"
    using set_unique [of "map Units (by_subject w (One indicator))"] by simp
  moreover have "py_key ` set ?us = py_key ` Units ` set (by_subject w (One indicator))"
    using keys_unique [of "map Units (by_subject w (One indicator))"] by simp
  moreover have "distinct (map py_key ?us)"
    by (simp add: unique_def distinct_keys_unique_by)
  ultimately show ?thesis
    by (simp add: units_def truthy_def)
qed

theorem get_invalid_unit_witness:
  "CStr ''Euro'' \<notin> Units ` set (by_subject clean_table (One gdp_subject)) \<and>
   get clean_table gdp_subject ''Euro'' =
     Inl (ValueError_unit [CStr gdp_unit, CStr ''National currency''] ''Euro'') \<and>
   units clean_table (Some (One gdp_subject)) = [CStr gdp_unit, CStr ''National currency''] \<and>
   CStr gdp_unit \<in> set (units clean_table (Some (One []))) \<and>
   CStr gdp_unit \<notin> Units ` set (by_subject clean_table (One [])) \<and>
   get clean_table [] gdp_unit = Inl (ValueError_unit [] gdp_unit)"
proof -
  have u: "unique (map Units (by_subject clean_table (One gdp_subject))) =
             [CStr gdp_unit, CStr ''National currency'']"
    by code_simp
  have "CStr ''Euro'' \<notin> set (unique (map Units (by_subject clean_table (One gdp_subject))))"
    unfolding u by (simp add: gdp_unit_def)
  then have n: "CStr ''Euro'' \<notin> Units ` set (by_subject clean_table (One gdp_subject))"
    by (simp add: CStr_in_unique)
  have g: "gdp_subject \<noteq> []"
    by (simp add: gdp_subject_def)
  have e: "by_subject clean_table (One []) = []"
    by code_simp
  have m: "CStr gdp_unit \<notin> Units ` set (by_subject clean_table (One []))"
    unfolding e by simp
  have a: "CStr gdp_unit \<in> set (units clean_table (Some (One [])))"
    by code_simp
  have ue: "unique (map Units (by_subject clean_table (One []))) = []"
    unfolding e by (simp add: unique_def)
  show ?thesis
    using get_invalid_unit [OF n] get_invalid_unit [OF m] g u n m a ue by simp
qed

text \<open>
  C2.  Rows whose Country field is missing are to appear in no derived output.
  \<^verbatim>\<open>variables\<close> and \<^verbatim>\<open>get\<close> read the filtered \<^verbatim>\<open>df\<close> (see \<open>variables_have_country\<close> and
  \<open>by_subject_has_country\<close>), but \<^verbatim>\<open>countries_df\<close> reads the raw \<^verbatim>\<open>_df\<close>: on a table that
  ends with the footer line of the IMF file, the footer row is among the countries, and
  \<^verbatim>\<open>find_countries\<close> fails on its missing name.
\<close>

theorem countries_df_keeps_missing_country:
  "countries_df footer_table =
     [(CStr ''111'', CStr ''USA'', CStr ''United States''),
      (CStr ''112'', CStr ''GBR'', CStr ''United Kingdom''),
      (CStr ''922'', CStr ''RUS'', CStr ''Russia''),
      (CStr ''924'', CStr ''CHN'', CStr ''China''),
      (WEO_Country_Code footer_row, CFloat NaN, CFloat NaN)] \<and>
   find_countries footer_table (of_string ''united'') = Inl AttributeError"
  by code_simp

text \<open>
  C3.  \<^verbatim>\<open>iso_code\<close> has no not-found error of its own.  On a table with at least one row,
  when \<^verbatim>\<open>find_countries\<close> returns no match, \<^verbatim>\<open>.iloc[0]\<close> raises \<^verbatim>\<open>IndexError\<close>; when it
  returns matches, the result is the ISO cell of the first; when it raises, so does
  \<^verbatim>\<open>iso_code\<close>.
\<close>

theorem iso_code_cases:
  "(raw_df w \<noteq> [] \<and> find_countries w name = Inr [] \<longrightarrow> iso_code w name = Inl IndexError) \<and>
   (\<forall>code i c rest.
      find_countries w name = Inr ((code, i, c) # rest) \<longrightarrow> iso_code w name = Inr i) \<and>
   (\<forall>e. find_countries w name = Inl e \<longrightarrow> iso_code w name = Inl e)"
  by (simp add: iso_code_def)

theorem iso_code_cases_witness:
  "raw_df clean_table \<noteq> [] \<and>
   find_countries clean_table (of_string ''zimbabwe'') = Inr [] \<and>
   iso_code clean_table (of_string ''zimbabwe'') = Inl IndexError \<and>
   find_countries clean_table (of_string ''KING'') = Inr [(CStr ''112'', CStr ''GBR'', CStr ''United Kingdom'')] \<and>
   iso_code clean_table (of_string ''KING'') = Inr (CStr ''GBR'') \<and>
   find_countries footer_table (of_string ''KING'') = Inl AttributeError \<and>
   iso_code footer_table (of_string ''KING'') = Inl AttributeError"
proof -
  have a: "raw_df clean_table \<noteq> []"
    by code_simp
  have b: "find_countries clean_table (of_string ''zimbabwe'') = Inr []"
    by code_simp
  have c: "find_countries clean_table (of_string ''KING'') =
             Inr [(CStr ''112'', CStr ''GBR'', CStr ''United Kingdom'')]"
    by code_simp
  have d: "find_countries footer_table (of_string ''KING'') = Inl AttributeError"
    by code_simp
  show ?thesis
    using iso_code_cases [of clean_table "of_string ''zimbabwe''"] iso_code_cases [of clean_table "of_string ''KING''"]
      iso_code_cases [of footer_table "of_string ''KING''"] a b c d
    by simp
qed

theorem iso_code_no_match_counterexample:
  "find_countries clean_table (of_string ''zzz'') = Inr [] \<and> iso_code clean_table (of_string ''zzz'') = Inl IndexError"
  by code_simp




text \<open>
  C5.  For a valid indicator and unit, \<^verbatim>\<open>get\<close> returns a frame exactly when the table has
  \<open>LATEST_YEAR - 1980 + 1\<close> year columns.  The row axis of that frame is the year ends
  from 1980 to \<open>LATEST_YEAR\<close>, and its columns are labelled by the ISO cells of the rows
  of that indicator and unit, in order; each column is as long as the row axis.  With any
  other number of year columns the new index does not fit and \<^verbatim>\<open>get\<close> raises
  \<^verbatim>\<open>ValueError\<close>.
\<close>

theorem get_shape:
  assumes "CStr unit \<in> set (map Units (by_subject w (One indicator)))"
  shows "if length (years w) = nat (LATEST_YEAR - 1980 + 1)
         then \<exists>s. get w indicator unit = Inr s \<and>
                index s = map (\<lambda>y. (y, 12, 31)) [1980..LATEST_YEAR] \<and>
                length (index s) = nat (LATEST_YEAR - 1980 + 1) \<and>
                map fst (columns s) =
                  map ISO (filter (\<lambda>r. Units r = CStr unit) (by_subject w (One indicator))) \<and>
                fst ` set (columns s) =
                  ISO ` {r \<in> set (by_subject w (One indicator)). Units r = CStr unit} \<and>
                list_all (\<lambda>(c, vs). length vs = length (index s)) (columns s)
         else get w indicator unit =
                Inl (ValueError_length (length (years w)) (nat (LATEST_YEAR - 1980 + 1)))"
proof (cases "length (years w) = nat (LATEST_YEAR - 1980 + 1)")
  case True
  let ?rows = "filter (\<lambda>r. Units r = CStr unit) (by_subject w (One indicator))"
  from get_valid_unit [OF assms True] obtain cs where
    g: "get w indicator unit = Inr \<lparr>index = date_range_A 1980 (LATEST_YEAR + 1), columns = cs\<rparr>"
    and rel: "list_all2
                 (\<lambda>r (c, vs). c = ISO r \<and> list_all2 (\<lambda>x v. convert x = Inr v) (year_cells w r) vs)
                 ?rows cs"
    by blast
  from rel have labels: "map fst cs = map ISO ?rows"
    by (induction rule: list_all2_induct) auto
  then have "set (map fst cs) = set (map ISO ?rows)"
    by simp
  then have sets: "fst ` set cs = ISO ` {r \<in> set (by_subject w (One indicator)). Units r = CStr unit}"
    by simp
  have "\<forall>p \<in> set cs. length (snd p) = nat (LATEST_YEAR - 1980 + 1)"
  proof
    fix p assume "p \<in> set cs"
    with rel obtain r where "list_all2 (\<lambda>x v. convert x = Inr v) (year_cells w r) (snd p)"
      by (fastforce dest: list_all2_right_ex)
    then have "length (snd p) = length (year_cells w r)"
      by (simp add: list_all2_lengthD)
    with True show "length (snd p) = nat (LATEST_YEAR - 1980 + 1)"
      by (simp add: length_year_cells)
  qed
  then have lens: "list_all (\<lambda>(c, vs). length vs = nat (LATEST_YEAR - 1980 + 1)) cs"
    by (auto simp: list_all_iff)
  show ?thesis
    using True g labels sets lens by (simp add: year_ends window_length [simplified year_ends])
next
  case False
  with get_wrong_length [OF assms] show ?thesis
    by simp
qed

theorem get_shape_witness:
  "CStr gdp_unit \<in> set (map Units (by_subject clean_table (One gdp_subject))) \<and>
   length (years clean_table) = 45 \<and>
   (\<exists>s. get clean_table gdp_subject gdp_unit = Inr s \<and>
        length (index s) = 45 \<and>
        map fst (columns s) = [CStr ''USA'', CStr ''GBR'', CStr ''RUS'', CStr ''CHN''])"
proof -
  have v: "CStr gdp_unit \<in> set (map Units (by_subject clean_table (One gdp_subject)))"
    by code_simp
  have n: "nat (LATEST_YEAR - 1980 + 1) = 45"
    by (simp add: LATEST_YEAR_def)
  have l: "map ISO (filter (\<lambda>r. Units r = CStr gdp_unit) (by_subject clean_table (One gdp_subject))) =
             [CStr ''USA'', CStr ''GBR'', CStr ''RUS'', CStr ''CHN'']"
    by code_simp
  show ?thesis
    using get_shape [OF v] v clean_years n l by auto
qed

theorem get_shape_counterexample:
  "CStr gdp_unit \<in> set (map Units (by_subject two_row_table (One gdp_subject))) \<and>
   years two_row_table = [''2018''] \<and>
   get two_row_table gdp_subject gdp_unit = Inl (ValueError_length 1 45)"
  by code_simp

text \<open>
  C6.  For an indicator name of \<^verbatim>\<open>variables()\<close> that is not the empty string,
  \<^verbatim>\<open>units(indicator)\<close> is not empty, and for every unit name in it \<^verbatim>\<open>get\<close> passes the
  unit check: it returns a frame when the table has \<open>LATEST_YEAR - 1980 + 1\<close> year columns
  and raises the length-mismatch \<^verbatim>\<open>ValueError\<close> otherwise.
\<close>

theorem get_succeeds_for_listed_units:
  assumes "CStr indicator \<in> set (variables w)" and "indicator \<noteq> []"
  shows "units w (Some (One indicator)) \<noteq> [] \<and>
         (\<forall>u. CStr u \<in> set (units w (Some (One indicator))) \<longrightarrow>
            (if length (years w) = nat (LATEST_YEAR - 1980 + 1)
             then \<exists>s. get w indicator u = Inr s
             else get w indicator u =
                    Inl (ValueError_length (length (years w)) (nat (LATEST_YEAR - 1980 + 1)))))"
proof -
  have u: "units w (Some (One indicator)) = unique (map Units (by_subject w (One indicator)))"
    using assms(2) by (simp add: units_def truthy_def)
  from assms(1) obtain r where "r \<in> set (df w)" and "Subject_Descriptor r = CStr indicator"
    using set_unique [of "map Subject_Descriptor (df w)"] by (auto simp: variables_def)
  then have "r \<in> set (by_subject w (One indicator))"
    by (simp add: by_subject_def)
  then have "by_subject w (One indicator) \<noteq> []"
    by auto
  then have ne: "units w (Some (One indicator)) \<noteq> []"
    by (simp add: u unique_eq_Nil)
  have "if length (years w) = nat (LATEST_YEAR - 1980 + 1)
        then \<exists>s. get w indicator x = Inr s
        else get w indicator x =
               Inl (ValueError_length (length (years w)) (nat (LATEST_YEAR - 1980 + 1)))"
    if "CStr x \<in> set (units w (Some (One indicator)))" for x
  proof -
    from that have v: "CStr x \<in> set (map Units (by_subject w (One indicator)))"
      by (simp add: u CStr_in_unique)
    show ?thesis
      using get_valid_unit [OF v] get_wrong_length [OF v] by (auto split: if_splits)
  qed
  with ne show ?thesis
    by blast
qed

theorem get_succeeds_for_listed_units_witness:
  "CStr gdp_subject \<in> set (variables clean_table) \<and> gdp_subject \<noteq> [] \<and>
   units clean_table (Some (One gdp_subject)) = [CStr gdp_unit, CStr ''National currency''] \<and>
   length (years clean_table) = 45 \<and>
   (\<exists>s. get clean_table gdp_subject gdp_unit = Inr s) \<and>
   (\<exists>s. get clean_table gdp_subject ''National currency'' = Inr s)"
proof -
  have v: "CStr gdp_subject \<in> set (variables clean_table)"
    by code_simp
  have g: "gdp_subject \<noteq> []"
    by (simp add: gdp_subject_def)
  have u: "units clean_table (Some (One gdp_subject)) = [CStr gdp_unit, CStr ''National currency'']"
    by code_simp
  have n: "nat (LATEST_YEAR - 1980 + 1) = 45"
    by (simp add: LATEST_YEAR_def)
  show ?thesis
    using get_succeeds_for_listed_units [OF v g] v g u clean_years n by auto
qed

theorem get_succeeds_for_listed_units_counterexample:
  "variables two_row_table = [CStr gdp_subject] \<and>
   units two_row_table (Some (One gdp_subject)) = [CStr gdp_unit] \<and>
   get two_row_table gdp_subject gdp_unit = Inl (ValueError_length 1 45)"
  by code_simp




end
